theory Spec2Isabelle
  imports Complex_Main "HOL-Library.Sublist" "HOL-Library.Multiset"
begin

section \<open>Strings of the program\<close>

text \<open>
  A JavaScript string is a sequence of code units. The model keeps the code units
  below 256, one \<^typ>\<open>char\<close> each, which covers every character the transducer
  treats specially: the five reserved characters, the white space that
  \<^verbatim>\<open>String.prototype.trim\<close> strips and the letters that
  \<^verbatim>\<open>toLowerCase\<close> changes.
\<close>

abbreviation dq :: char where
  "dq \<equiv> CHR 0x22"

abbreviation sq :: char where
  "sq \<equiv> CHR 0x27"

definition is_ws :: "char \<Rightarrow> bool" where
  "is_ws c \<longleftrightarrow>
     c = CHR 0x09 \<or> c = CHR 0x0A \<or> c = CHR 0x0B \<or> c = CHR 0x0C \<or> c = CHR 0x0D \<or>
     c = CHR 0x20 \<or> c = CHR 0xA0"

definition trim :: "string \<Rightarrow> string" where
  "trim s = rev (dropWhile is_ws (rev (dropWhile is_ws s)))"

definition lower_char :: "char \<Rightarrow> char" where
  "lower_char c =
     (let n = (of_char c :: nat)
      in if (65 \<le> n \<and> n \<le> 90) \<or> (192 \<le> n \<and> n \<le> 222 \<and> n \<noteq> 215)
         then char_of (n + 32) else c)"

definition toLowerCase :: "string \<Rightarrow> string" where
  "toLowerCase s = map lower_char s"

section \<open>xml2html.js: the escaper\<close>

text \<open>
  \<^verbatim>\<open>escapeHtml\<close> replaces every match of the character class
  \<^verbatim>\<open>[&<>"']\<close> by the entry of its table; every other character is kept.
\<close>

definition escape_char :: "char \<Rightarrow> string" where
  "escape_char c =
     (if c = CHR ''&'' then ''&amp;''
      else if c = CHR ''<'' then ''&lt;''
      else if c = CHR ''>'' then ''&gt;''
      else if c = dq then ''&quot;''
      else if c = sq then ''&#39;''
      else [c])"

definition escapeHtml :: "string \<Rightarrow> string" where
  "escapeHtml t = concat (map escape_char t)"

section \<open>xml2html.js: the parsed tree\<close>

text \<open>
  The nodes a DOM parser hands back. \<open>Element\<close> carries the tag name, the attributes
  in order (name and text of each) and the child nodes. \<open>Other\<close> stands for the node
  kinds \<^verbatim>\<open>nodeToHtml\<close> has no branch for (processing instructions, document
  types).
\<close>

datatype node =
    Element string "(string \<times> string) list" "node list"
  | Text string
  | CData string
  | Comment string
  | Document "node list"
  | Other

datatype xmldoc = XmlDoc "node list"

datatype exn = SecurityError | QuotaExceededError | TypeError | SyntaxError

fun is_element :: "node \<Rightarrow> bool" where
  "is_element (Element t a k) = True"
| "is_element n = False"

fun documentElement :: "xmldoc \<Rightarrow> node option" where
  "documentElement (XmlDoc kids) = find is_element kids"

fun childNodes :: "node \<Rightarrow> node list" where
  "childNodes (Element t a kids) = kids"
| "childNodes (Document kids) = kids"
| "childNodes n = []"

definition local_name :: "string \<Rightarrow> string" where
  "local_name t =
     (if CHR '':'' \<in> set t then tl (dropWhile (\<lambda>c. c \<noteq> CHR '':'') t) else t)"

text \<open>
  \<^verbatim>\<open>querySelector\<close> with a type selector: the first element, in document order,
  whose local name is the selector.
\<close>

fun find_element :: "string \<Rightarrow> node \<Rightarrow> node option"
  and find_in :: "string \<Rightarrow> node list \<Rightarrow> node option" where
  "find_element nm (Element t a kids) =
     (if local_name t = nm then Some (Element t a kids) else find_in nm kids)"
| "find_element nm (Document kids) = find_in nm kids"
| "find_element nm (Text s) = None"
| "find_element nm (CData s) = None"
| "find_element nm (Comment s) = None"
| "find_element nm Other = None"
| "find_in nm [] = None"
| "find_in nm (k # ks) =
     (case find_element nm k of Some e \<Rightarrow> Some e | None \<Rightarrow> find_in nm ks)"

fun querySelector :: "xmldoc \<Rightarrow> string \<Rightarrow> node option" where
  "querySelector (XmlDoc kids) nm = find_in nm kids"

text \<open>
  \<^verbatim>\<open>parseXML\<close>. The browser's \<^verbatim>\<open>DOMParser\<close> is not code of the
  repository: it is the parameter \<open>parser\<close>, which returns a document or raises.
\<close>

type_synonym domparser = "string \<Rightarrow> exn + xmldoc"

definition parseXML :: "domparser \<Rightarrow> string \<Rightarrow> xmldoc option" where
  "parseXML parser xmlString =
     (if trim xmlString = [] then None
      else case parser xmlString of
             Inl err \<Rightarrow> None
           | Inr xmlDoc \<Rightarrow>
               (case querySelector xmlDoc ''parsererror'' of
                  Some parserError \<Rightarrow> None
                | None \<Rightarrow> Some xmlDoc))"

section \<open>xml2html.js: the transducer\<close>

record node_options =
  preserveAttributes :: bool
  preserveTextNodes :: bool
  tagMapping :: "string \<Rightarrow> string option"

definition selfClosingTags :: "string list" where
  "selfClosingTags =
     [''br'', ''hr'', ''img'', ''input'', ''meta'', ''link'', ''area'', ''base'', ''col'',
      ''embed'', ''source'', ''track'', ''wbr'']"

text \<open>
  \<^verbatim>\<open>tagMapping[tagName] || tagName || 'div'\<close>: an absent or empty entry
  falls through, and so does an empty tag name. The mapping is the map of the entries the
  caller put into the object; what a JavaScript object inherits from its prototype is not
  part of it.
\<close>

definition html_tag_name :: "node_options \<Rightarrow> string \<Rightarrow> string" where
  "html_tag_name opts tagName =
     (case tagMapping opts tagName of
        Some m \<Rightarrow> if m \<noteq> [] then m else if tagName \<noteq> [] then tagName else ''div''
      | None \<Rightarrow> if tagName \<noteq> [] then tagName else ''div'')"

definition attr_html :: "string \<times> string \<Rightarrow> string" where
  "attr_html a = '' '' @ fst a @ ''='' @ [dq] @ escapeHtml (snd a) @ [dq]"

text \<open>
  \<^verbatim>\<open>nodeToHtml\<close>, with the options its two callers pass (all three fields
  given). The branches stand in the order of the source; the two loops are folds over the
  attributes and over the child nodes, the second one carrying \<^verbatim>\<open>childrenHtml\<close>
  and \<^verbatim>\<open>hasChildren\<close>. A missing node is excluded by the type.
\<close>

fun nodeToHtml :: "node_options \<Rightarrow> node \<Rightarrow> string" where
  "nodeToHtml opts (Text t) =
     (if \<not> preserveTextNodes opts then [] else escapeHtml (trim t))"
| "nodeToHtml opts (CData t) = t"
| "nodeToHtml opts (Element tg attrs children) =
     (let tagName = toLowerCase tg;
          htmlTagName = html_tag_name opts tagName;
          html0 = ''<'' @ htmlTagName;
          html1 = (if preserveAttributes opts
                   then fold (\<lambda>attr html. html @ attr_html attr) attrs html0
                   else html0);
          loop = fold (\<lambda>child acc.
                   let childHtml = nodeToHtml opts child
                   in if childHtml \<noteq> [] then (fst acc @ childHtml, True) else acc)
                 children ([], False);
          childrenHtml = fst loop;
          hasChildren = snd loop
      in if htmlTagName \<in> set selfClosingTags \<and> \<not> hasChildren
         then html1 @ '' />''
         else html1 @ ''>'' @ (if hasChildren then childrenHtml else []) @
              ''</'' @ htmlTagName @ ''>'')"
| "nodeToHtml opts (Comment t) = ''<!--'' @ t @ ''-->''"
| "nodeToHtml opts (Document children) =
     fold (\<lambda>child html. html @ nodeToHtml opts child) children []"
| "nodeToHtml opts Other = []"

text \<open>
  The options object of the two entry points: every field may be absent, and the
  destructuring supplies the defaults.
\<close>

record options =
  opt_preserveAttributes :: "bool option"
  opt_preserveTextNodes :: "bool option"
  opt_tagMapping :: "(string \<Rightarrow> string option) option"
  opt_wrapperTag :: "string option"

definition no_options :: options where
  "no_options = \<lparr>opt_preserveAttributes = None, opt_preserveTextNodes = None,
     opt_tagMapping = None, opt_wrapperTag = None\<rparr>"

definition resolve :: "options \<Rightarrow> node_options" where
  "resolve options =
     \<lparr>preserveAttributes = (case opt_preserveAttributes options of None \<Rightarrow> True | Some b \<Rightarrow> b),
      preserveTextNodes = (case opt_preserveTextNodes options of None \<Rightarrow> True | Some b \<Rightarrow> b),
      tagMapping = (case opt_tagMapping options of None \<Rightarrow> Map.empty | Some m \<Rightarrow> m)\<rparr>"

text \<open>
  \<^verbatim>\<open>xml2html\<close> and \<^verbatim>\<open>xml2htmlFragment\<close>. An argument that is
  not a string is excluded by the type; the empty string is the one falsy wrapper tag.
\<close>

definition xml2html :: "domparser \<Rightarrow> string \<Rightarrow> options \<Rightarrow> string" where
  "xml2html parser xmlString options =
     (if trim xmlString = [] then []
      else case parseXML parser xmlString of
             None \<Rightarrow> []
           | Some xmlDoc \<Rightarrow>
               (let html = nodeToHtml (resolve options)
                             (case documentElement xmlDoc of
                                Some docEl \<Rightarrow> docEl
                              | None \<Rightarrow> (case xmlDoc of XmlDoc kids \<Rightarrow> Document kids));
                    wrapperTag = (case opt_wrapperTag options of None \<Rightarrow> [] | Some w \<Rightarrow> w)
                in if wrapperTag \<noteq> []
                   then ''<'' @ wrapperTag @ ''>'' @ html @ ''</'' @ wrapperTag @ ''>''
                   else html))"

definition xml2htmlFragment :: "domparser \<Rightarrow> string \<Rightarrow> options \<Rightarrow> string" where
  "xml2htmlFragment parser xmlString options =
     (if trim xmlString = [] then []
      else case parseXML parser xmlString of
             None \<Rightarrow> []
           | Some xmlDoc \<Rightarrow>
               (let rootElement = (case documentElement xmlDoc of
                                     Some docEl \<Rightarrow> docEl
                                   | None \<Rightarrow> (case xmlDoc of XmlDoc kids \<Rightarrow> Document kids));
                    children = childNodes rootElement
                in fold (\<lambda>child html. html @ nodeToHtml (resolve options) child)
                     children []))"


section \<open>storage.js: the key-value facade\<close>

text \<open>
  The browser's two storage areas. A text held under a key is represented by what
  \<^verbatim>\<open>JSON.parse\<close> makes of it: \<open>Parsed v\<close> when it parses to \<open>v\<close>,
  \<open>Unparsable\<close> when \<^verbatim>\<open>JSON.parse\<close> raises on it. The platform is
  a parameter of the model: \<open>blocked\<close> says for which area reading the property of
  \<^verbatim>\<open>window\<close> raises, \<open>fits\<close> which contents of an area the quota
  admits, and \<open>stringify\<close> what \<^verbatim>\<open>JSON.stringify\<close> does with a value
  (it raises, or yields a text).
\<close>

datatype 'v cell = Parsed 'v | Unparsable

datatype area = LocalArea | SessionArea

record 'v window =
  blocked :: "area \<Rightarrow> bool"
  cells :: "area \<Rightarrow> string \<Rightarrow> 'v cell option"
  fits :: "area \<Rightarrow> (string \<Rightarrow> 'v cell option) \<Rightarrow> bool"
  stringify :: "'v \<Rightarrow> exn + 'v cell"

definition window_storage :: "'v window \<Rightarrow> area \<Rightarrow> exn + area" where
  "window_storage w a = (if blocked w a then Inl SecurityError else Inr a)"

definition setItem :: "'v window \<Rightarrow> area \<Rightarrow> string \<Rightarrow> 'v cell \<Rightarrow> exn + 'v window" where
  "setItem w a k c =
     (let cs = (cells w a)(k \<mapsto> c)
      in if fits w a cs then Inr (w\<lparr>cells := (cells w)(a := cs)\<rparr>)
         else Inl QuotaExceededError)"

definition getItem :: "'v window \<Rightarrow> area \<Rightarrow> string \<Rightarrow> 'v cell option" where
  "getItem w a k = cells w a k"

definition removeItem :: "'v window \<Rightarrow> area \<Rightarrow> string \<Rightarrow> 'v window" where
  "removeItem w a k = w\<lparr>cells := (cells w)(a := (cells w a)(k := None))\<rparr>"

definition clear_area :: "'v window \<Rightarrow> area \<Rightarrow> 'v window" where
  "clear_area w a = w\<lparr>cells := (cells w)(a := Map.empty)\<rparr>"

definition JSON_parse :: "'v cell \<Rightarrow> exn + 'v" where
  "JSON_parse c = (case c of Parsed v \<Rightarrow> Inr v | Unparsable \<Rightarrow> Inl SyntaxError)"

text \<open>\<^verbatim>\<open>try { body } catch (error) { handler }\<close>, for a handler that only logs and returns.\<close>

definition try_catch :: "exn + 'a \<Rightarrow> (exn \<Rightarrow> 'a) \<Rightarrow> 'a" where
  "try_catch body handler = (case body of Inr r \<Rightarrow> r | Inl error \<Rightarrow> handler error)"

definition StorageType_LOCAL :: string where
  "StorageType_LOCAL = ''localStorage''"

definition StorageType_SESSION :: string where
  "StorageType_SESSION = ''sessionStorage''"

definition getStorageInstance :: "string \<Rightarrow> 'v window \<Rightarrow> area option" where
  "getStorageInstance type w =
     try_catch
       (case (if type = StorageType_LOCAL then window_storage w LocalArea
              else if type = StorageType_SESSION then window_storage w SessionArea
              else window_storage w SessionArea) of
          Inl e \<Rightarrow> Inl e
        | Inr storage \<Rightarrow> Inr (Some storage))
       (\<lambda>error. None)"

text \<open>
  Each function of the facade is its \<^verbatim>\<open>try\<close> block, which may raise, under
  its \<^verbatim>\<open>catch\<close>. The functions that write return their flag and the new
  state of the window.
\<close>

definition setStorage_try :: "string \<Rightarrow> 'v \<Rightarrow> string \<Rightarrow> 'v window \<Rightarrow> exn + bool \<times> 'v window" where
  "setStorage_try key v type w =
     (case getStorageInstance type w of
        None \<Rightarrow> Inr (False, w)
      | Some storage \<Rightarrow>
          (case stringify w v of
             Inl e \<Rightarrow> Inl e
           | Inr stringValue \<Rightarrow>
               (case setItem w storage key stringValue of
                  Inl e \<Rightarrow> Inl e
                | Inr w' \<Rightarrow> Inr (True, w'))))"

definition setStorage :: "string \<Rightarrow> 'v \<Rightarrow> string \<Rightarrow> 'v window \<Rightarrow> bool \<times> 'v window" where
  "setStorage key v type w = try_catch (setStorage_try key v type w) (\<lambda>error. (False, w))"

definition getStorage_try :: "string \<Rightarrow> 'v \<Rightarrow> string \<Rightarrow> 'v window \<Rightarrow> exn + 'v" where
  "getStorage_try key defaultValue type w =
     (case getStorageInstance type w of
        None \<Rightarrow> Inr defaultValue
      | Some storage \<Rightarrow>
          (case getItem w storage key of
             None \<Rightarrow> Inr defaultValue
           | Some text \<Rightarrow> JSON_parse text))"

definition getStorage :: "string \<Rightarrow> 'v \<Rightarrow> string \<Rightarrow> 'v window \<Rightarrow> 'v" where
  "getStorage key defaultValue type w =
     try_catch (getStorage_try key defaultValue type w) (\<lambda>error. defaultValue)"

definition removeStorage_try :: "string \<Rightarrow> string \<Rightarrow> 'v window \<Rightarrow> exn + bool \<times> 'v window" where
  "removeStorage_try key type w =
     (case getStorageInstance type w of
        None \<Rightarrow> Inr (False, w)
      | Some storage \<Rightarrow> Inr (True, removeItem w storage key))"

definition removeStorage :: "string \<Rightarrow> string \<Rightarrow> 'v window \<Rightarrow> bool \<times> 'v window" where
  "removeStorage key type w = try_catch (removeStorage_try key type w) (\<lambda>error. (False, w))"

definition clearStorage_try :: "string \<Rightarrow> 'v window \<Rightarrow> exn + bool \<times> 'v window" where
  "clearStorage_try type w =
     (case getStorageInstance type w of
        None \<Rightarrow> Inr (False, w)
      | Some storage \<Rightarrow> Inr (True, clear_area w storage))"

definition clearStorage :: "string \<Rightarrow> 'v window \<Rightarrow> bool \<times> 'v window" where
  "clearStorage type w = try_catch (clearStorage_try type w) (\<lambda>error. (False, w))"


section \<open>storage.js: the table id lists\<close>

text \<open>
  What the application keeps in session storage are arrays: arrays of table ids (strings)
  and an array of selected items (objects). An array element is \<open>Str\<close> or \<open>Itm\<close>.
\<close>

record table_item =
  uniqueId :: string
  item_id :: string
  item_html :: string
  item_xml :: string
  item_similarity :: real
  item_metadata :: "(string \<times> string) list"

datatype elem = Str string | Itm table_item

type_synonym jsarray = "elem list"

datatype jsarg = NotArray | Array jsarray

definition TABLE_IDS_KEY :: string where
  "TABLE_IDS_KEY = ''table_ids''"

definition TABLE_ORDER_KEY :: string where
  "TABLE_ORDER_KEY = ''table_order''"

text \<open>
  \<^verbatim>\<open>Array.prototype.includes\<close> on parsed arrays: two strings are the same value
  when they are equal; an object read back from storage is a fresh object, the same as
  no other.
\<close>

fun same_value :: "elem \<Rightarrow> elem \<Rightarrow> bool" where
  "same_value (Str a) (Str b) = (a = b)"
| "same_value x y = False"

definition array_includes :: "jsarray \<Rightarrow> elem \<Rightarrow> bool" where
  "array_includes xs x = list_ex (\<lambda>y. same_value y x) xs"

definition getAllTableIds :: "jsarray window \<Rightarrow> jsarray" where
  "getAllTableIds w =
     try_catch (Inr (getStorage TABLE_IDS_KEY [] StorageType_SESSION w)) (\<lambda>error. [])"

definition getTableOrder :: "jsarray window \<Rightarrow> jsarray" where
  "getTableOrder w =
     try_catch (Inr (getStorage TABLE_ORDER_KEY [] StorageType_SESSION w)) (\<lambda>error. [])"

definition updateTableOrder :: "jsarg \<Rightarrow> jsarray window \<Rightarrow> bool \<times> jsarray window" where
  "updateTableOrder orderArray w =
     try_catch
       (case orderArray of
          NotArray \<Rightarrow> Inr (False, w)
        | Array proposal \<Rightarrow>
            (let ids = getAllTableIds w;
                 validOrder = filter (\<lambda>i. array_includes ids i) proposal;
                 missingIds = filter (\<lambda>i. \<not> array_includes proposal i) ids;
                 finalOrder = validOrder @ missingIds
             in Inr (True, snd (setStorage TABLE_ORDER_KEY finalOrder StorageType_SESSION w))))
       (\<lambda>error. (False, w))"

text \<open>
  \<^verbatim>\<open>addTableId\<close>, the helper of the earlier view, which keeps the id list
  free of duplicates. The view modelled below does not call it.
\<close>

definition addTableId :: "string \<Rightarrow> jsarray window \<Rightarrow> bool \<times> jsarray window" where
  "addTableId tableId w =
     try_catch
       (if tableId = [] then Inr (False, w)
        else (let ids = getAllTableIds w
              in if array_includes ids (Str tableId) then Inr (False, w)
                 else (let w1 = snd (setStorage TABLE_IDS_KEY (ids @ [Str tableId])
                                       StorageType_SESSION w);
                           order = getTableOrder w1;
                           w2 = snd (setStorage TABLE_ORDER_KEY (order @ [Str tableId])
                                       StorageType_SESSION w1)
                       in Inr (True, w2))))
       (\<lambda>error. (False, w))"

section \<open>DisplayView: the selection\<close>

record table =
  tbl_id :: string
  tbl_html :: string
  tbl_xml :: string
  tbl_similarity :: real
  tbl_metadata :: "(string \<times> string) list"

datatype message = Warning_no_such_table | Success_added | Success_removed

datatype jsval = JUndefined | JBool bool

record view =
  tableList :: "table list"
  selectedTables :: "table_item list"
  selectedTableIds :: jsarray
  currentSelectedIndex :: int
  messages :: "message list"

definition SELECTED_TABLES_ITEMS_KEY :: string where
  "SELECTED_TABLES_ITEMS_KEY = ''selected_tables_items''"

text \<open>\<^verbatim>\<open>xs.splice(i, 1)\<close> for an index within the array.\<close>

definition splice1 :: "nat \<Rightarrow> 'a list \<Rightarrow> 'a list" where
  "splice1 i xs = take i xs @ drop (Suc i) xs"


text \<open>
  \<^verbatim>\<open>addToSelected\<close>. The stamp that makes the unique id
  (\<^verbatim>\<open>Date.now()\<close> and the random suffix) is the parameter \<open>stamp\<close>.
  The method has no \<^verbatim>\<open>return\<close> with a value: on every path its result is
  \<^verbatim>\<open>undefined\<close>.
\<close>

definition tableItem_of :: "string \<Rightarrow> string \<Rightarrow> table \<Rightarrow> table_item" where
  "tableItem_of tableId stamp tbl =
     \<lparr>uniqueId = tableId @ ''_'' @ stamp, item_id = tbl_id tbl, item_html = tbl_html tbl,
      item_xml = tbl_xml tbl, item_similarity = tbl_similarity tbl,
      item_metadata = tbl_metadata tbl\<rparr>"

definition addToSelected ::
  "string \<Rightarrow> string \<Rightarrow> view \<times> jsarray window \<Rightarrow> jsval \<times> view \<times> jsarray window" where
  "addToSelected tableId stamp s =
     (let v = fst s; w = snd s
      in if tableId = [] then (JUndefined, v, w)
         else case find (\<lambda>t. tbl_id t = tableId) (tableList v) of
                None \<Rightarrow> (JUndefined, v\<lparr>messages := messages v @ [Warning_no_such_table]\<rparr>, w)
              | Some tbl \<Rightarrow>
                  (let tableItem = tableItem_of tableId stamp tbl;
                       v1 = v\<lparr>selectedTables := selectedTables v @ [tableItem]\<rparr>;
                       storedItems = getStorage SELECTED_TABLES_ITEMS_KEY [] StorageType_SESSION w;
                       w1 = snd (setStorage SELECTED_TABLES_ITEMS_KEY (storedItems @ [Itm tableItem])
                                   StorageType_SESSION w);
                       ids = getAllTableIds w1;
                       w2 = snd (setStorage TABLE_IDS_KEY (ids @ [Str tableId]) StorageType_SESSION w1);
                       order = getTableOrder w2;
                       w3 = snd (updateTableOrder (Array (order @ [Str tableId])) w2)
                   in (JUndefined, v1\<lparr>messages := messages v1 @ [Success_added]\<rparr>, w3)))"


section \<open>Notions the properties are stated with\<close>

text \<open>
  None of the definitions of this section is code of the repository. They name what the
  properties speak of: the part of an element's output before the end of its open tag,
  strings free of the five reserved characters, a scanner that tells markup structure
  from content, the well-formedness of names, the removal of an outermost tag pair, a
  storage that works, and the agreement of the records of the selection.
\<close>

text \<open>The output of an element up to, and without, the bracket that ends its open tag.\<close>

definition open_tag :: "node_options \<Rightarrow> string \<Rightarrow> (string \<times> string) list \<Rightarrow> string" where
  "open_tag opts tg attrs =
     ''<'' @ html_tag_name opts (toLowerCase tg) @
     (if preserveAttributes opts then concat (map attr_html attrs) else [])"

text \<open>The five reserved characters, and the strings that hold none of them.\<close>

definition reserved :: "char \<Rightarrow> bool" where
  "reserved c \<longleftrightarrow> c = CHR ''&'' \<or> c = CHR ''<'' \<or> c = CHR ''>'' \<or> c = dq \<or> c = sq"

definition plain :: "string \<Rightarrow> bool" where
  "plain s \<longleftrightarrow> list_all (\<lambda>c. \<not> reserved c) s"








text \<open>Options whose replacement tag names, and whose wrapper tag, hold no reserved character.\<close>

definition plain_mapping :: "node_options \<Rightarrow> bool" where
  "plain_mapping opts \<longleftrightarrow> (\<forall>t m. tagMapping opts t = Some m \<longrightarrow> plain m)"



text \<open>
  Stripping the outermost tag pair from a string, in the words of the specification:
  \<open>strip_open\<close> drops the text up to and including the first \<open>>\<close>,
  \<open>strip_close\<close> drops the text from the last \<open><\<close> on (a string without
  \<open><\<close> has no close tag to drop).
\<close>

definition strip_open :: "string \<Rightarrow> string" where
  "strip_open s = tl (dropWhile (\<lambda>c. c \<noteq> CHR ''>'') s)"

definition strip_close :: "string \<Rightarrow> string" where
  "strip_close s =
     (if CHR ''<'' \<in> set s then rev (tl (dropWhile (\<lambda>c. c \<noteq> CHR ''<'') (rev s))) else s)"

definition strip_outer_tags :: "string \<Rightarrow> string" where
  "strip_outer_tags s = strip_close (strip_open s)"

text \<open>The parser raises on the text, or its document holds a \<^verbatim>\<open>parsererror\<close> element.\<close>

definition parse_fails :: "domparser \<Rightarrow> string \<Rightarrow> bool" where
  "parse_fails parser s =
     (case parser s of Inl e \<Rightarrow> True | Inr d \<Rightarrow> querySelector d ''parsererror'' \<noteq> None)"

text \<open>
  The storage area a type string selects. A session storage that works: reading it does
  not raise, every value serialises to a text that parses back to it, and the quota
  admits every content. \<open>session_put\<close> is a successful write to it and
  \<open>session_get\<close> the array read from it.
\<close>

definition type_area :: "string \<Rightarrow> area" where
  "type_area type = (if type = StorageType_LOCAL then LocalArea else SessionArea)"

definition session_works :: "'v window \<Rightarrow> bool" where
  "session_works w \<longleftrightarrow>
     \<not> blocked w SessionArea \<and> (\<forall>v. stringify w v = Inr (Parsed v)) \<and>
     (\<forall>cs. fits w SessionArea cs)"

definition session_put :: "string \<Rightarrow> 'v \<Rightarrow> 'v window \<Rightarrow> 'v window" where
  "session_put k v w = w\<lparr>cells := (cells w)(SessionArea := (cells w SessionArea)(k \<mapsto> Parsed v))\<rparr>"

definition session_get :: "string \<Rightarrow> jsarray window \<Rightarrow> jsarray" where
  "session_get k w = getStorage k [] StorageType_SESSION w"

text \<open>The order that \<^verbatim>\<open>updateTableOrder\<close> computes from a proposal and the id list.\<close>

definition final_order :: "jsarray \<Rightarrow> jsarray \<Rightarrow> jsarray" where
  "final_order proposal ids =
     filter (\<lambda>i. array_includes ids i) proposal @ filter (\<lambda>i. \<not> array_includes proposal i) ids"


section \<open>Sample inputs\<close>

text \<open>
  Concrete documents, windows and views at which the theorems are instantiated.
  \<open>parser_of d\<close> is a parser that answers every text with the document \<open>d\<close>.
\<close>

definition parser_of :: "xmldoc \<Rightarrow> domparser" where
  "parser_of d s = Inr d"

definition sample_doc :: xmldoc where
  "sample_doc = XmlDoc [Element ''Row'' [(''id'', ''a<b'')]
     [Element ''cell'' [] [Text '' x & y ''], Element ''BR'' [] [Text '' '']]]"

definition sample_xml :: string where
  "sample_xml =
     ''<Row id='' @ [dq] @ ''a&lt;b'' @ [dq] @ ''><cell> x &amp; y </cell><BR> </BR></Row>''"


definition error_doc :: xmldoc where
  "error_doc = XmlDoc [Element ''a'' [] [Element ''parsererror'' [] [Text ''error'']]]"

definition fresh_window :: "jsarray window" where
  "fresh_window = \<lparr>blocked = (\<lambda>a. False), cells = (\<lambda>a. Map.empty), fits = (\<lambda>a cs. True),
     stringify = (\<lambda>v. Inr (Parsed v))\<rparr>"

definition blocked_window :: "jsarray window" where
  "blocked_window = fresh_window\<lparr>blocked := (\<lambda>a. True)\<rparr>"

definition full_window :: "jsarray window" where
  "full_window = fresh_window\<lparr>fits := (\<lambda>a cs. False)\<rparr>"

definition cyclic_window :: "jsarray window" where
  "cyclic_window = fresh_window\<lparr>stringify := (\<lambda>v. Inl TypeError)\<rparr>"

definition corrupt_window :: "jsarray window" where
  "corrupt_window = fresh_window\<lparr>cells := (\<lambda>a. [''k'' \<mapsto> Unparsable])\<rparr>"


definition t1_table :: table where
  "t1_table = \<lparr>tbl_id = ''t1'', tbl_html = ''<table></table>'', tbl_xml = ''<table/>'',
     tbl_similarity = 1, tbl_metadata = []\<rparr>"

definition t2_table :: table where
  "t2_table = \<lparr>tbl_id = ''t2'', tbl_html = ''<table></table>'', tbl_xml = ''<table/>'',
     tbl_similarity = 0, tbl_metadata = []\<rparr>"

definition blank_table :: table where
  "blank_table = \<lparr>tbl_id = [], tbl_html = [], tbl_xml = [], tbl_similarity = 0,
     tbl_metadata = []\<rparr>"

definition results_view :: view where
  "results_view = \<lparr>tableList = [t1_table, t2_table], selectedTables = [], selectedTableIds = [],
     currentSelectedIndex = - 1, messages = []\<rparr>"




section \<open>The transducer: loops and the shape of an element's output\<close>

lemma attr_fold: "fold (\<lambda>attr html. html @ attr_html attr) attrs h = h @ concat (map attr_html attrs)"
  by (induction attrs arbitrary: h) simp_all

lemma doc_fold: "fold (\<lambda>child html. html @ f child) kids h = h @ concat (map f kids)"
  by (induction kids arbitrary: h) simp_all

lemma child_loop:
  "fold (\<lambda>child acc. if f child \<noteq> [] then (fst acc @ f child, True) else acc)
        kids (pre, b)
   = (pre @ concat (map f kids), b \<or> (\<exists>k\<in>set kids. f k \<noteq> []))"
  by (induction kids arbitrary: pre b) auto

lemma nodeToHtml_Element:
  "nodeToHtml opts (Element tg attrs kids) =
     (if html_tag_name opts (toLowerCase tg) \<in> set selfClosingTags \<and>
         (\<forall>k\<in>set kids. nodeToHtml opts k = [])
      then open_tag opts tg attrs @ '' />''
      else open_tag opts tg attrs @ ''>'' @ concat (map (nodeToHtml opts) kids) @
           ''</'' @ html_tag_name opts (toLowerCase tg) @ ''>'')"
  by (auto simp: Let_def child_loop attr_fold open_tag_def)

section \<open>The scanner accepts escaped text\<close>










lemma code_eq: "(of_char c :: nat) = of_char d \<Longrightarrow> c = d"
  by (simp only: of_char_eq_iff)

lemma reserved_code:
  "reserved c \<longleftrightarrow> (of_char c :: nat) \<in> {38, 60, 62, 34, 39}"
  unfolding reserved_def
  using code_eq [of c "CHR ''&''"] code_eq [of c "CHR ''<''"] code_eq [of c "CHR ''>''"]
    code_eq [of c "CHR 0x22"] code_eq [of c "CHR 0x27"]
  by auto

lemma lower_char_plain: "\<not> reserved c \<Longrightarrow> \<not> reserved (lower_char c)"
proof (cases "lower_char c = c")
  case True
  then show "\<not> reserved c \<Longrightarrow> ?thesis" by simp
next
  case False
  define n where "n = (of_char c :: nat)"
  have n: "n < 256" unfolding n_def by simp
  from False have lc: "lower_char c = char_of (n + 32)" and rng: "n \<le> 222"
    unfolding lower_char_def n_def by (auto simp: Let_def split: if_splits)
  from False have lo: "65 \<le> n"
    unfolding lower_char_def n_def by (auto simp: Let_def split: if_splits)
  have "(of_char (lower_char c) :: nat) = n + 32"
    using rng by (simp add: lc)
  then show ?thesis using lo by (simp add: reserved_code)
qed

lemma toLowerCase_plain: "plain s \<Longrightarrow> plain (toLowerCase s)"
  by (induction s) (auto simp: plain_def toLowerCase_def lower_char_plain)

lemma plain_append [simp]: "plain (a @ b) \<longleftrightarrow> plain a \<and> plain b"
  by (simp add: plain_def)

lemma html_tag_name_plain:
  "plain_mapping opts \<Longrightarrow> plain t \<Longrightarrow> plain (html_tag_name opts t)"
  by (auto simp: html_tag_name_def plain_mapping_def plain_def reserved_def
      split: option.splits)






section \<open>The key-value facade\<close>

lemma getStorageInstance_eq:
  "getStorageInstance type w = (if blocked w (type_area type) then None else Some (type_area type))"
  by (simp add: getStorageInstance_def try_catch_def window_storage_def type_area_def)

lemma type_area_session [simp]: "type_area StorageType_SESSION = SessionArea"
  by (simp add: type_area_def StorageType_SESSION_def StorageType_LOCAL_def)

lemma setStorage_works:
  "session_works w \<Longrightarrow> setStorage k v StorageType_SESSION w = (True, session_put k v w)"
  by (simp add: session_works_def setStorage_def setStorage_try_def try_catch_def
      getStorageInstance_eq setItem_def session_put_def)

lemma session_works_put [simp]: "session_works (session_put k v w) = session_works w"
  by (simp add: session_works_def session_put_def)

lemma getStorage_put:
  "\<not> blocked w SessionArea \<Longrightarrow>
   getStorage k' d StorageType_SESSION (session_put k v w) =
     (if k' = k then v else getStorage k' d StorageType_SESSION w)"
  by (simp add: getStorage_def getStorage_try_def try_catch_def getStorageInstance_eq
      getItem_def session_put_def JSON_parse_def)

text \<open>
  Claim C9. For every key, value, default and storage type, a failure of the underlying
  storage never leaves the facade as an exception: each function is the value of its
  \<^verbatim>\<open>try\<close> block or, when that raises, of its \<^verbatim>\<open>catch\<close>.
  When the storage cannot be reached, \<^verbatim>\<open>getStorage\<close> returns the default
  and \<^verbatim>\<open>setStorage\<close>, \<^verbatim>\<open>removeStorage\<close> and
  \<^verbatim>\<open>clearStorage\<close> return false and leave the window as it was; whenever
  a \<^verbatim>\<open>try\<close> block raises, the result is the default, respectively false.
  In particular a value that does not serialise and a write beyond the quota make
  \<^verbatim>\<open>setStorage\<close> return false, and a stored text that does not parse, or
  an absent key, makes \<^verbatim>\<open>getStorage\<close> return the default.
\<close>

theorem storage_failure_policy:
  fixes w :: "'v window"
  shows
  "getStorageInstance type w = (if blocked w (type_area type) then None else Some (type_area type)) \<and>
   (getStorageInstance type w = None \<longrightarrow>
      getStorage key d type w = d \<and> setStorage key v type w = (False, w) \<and>
      removeStorage key type w = (False, w) \<and> clearStorage type w = (False, w)) \<and>
   (\<forall>e. getStorage_try key d type w = Inl e \<longrightarrow> getStorage key d type w = d) \<and>
   (\<forall>e. setStorage_try key v type w = Inl e \<longrightarrow> setStorage key v type w = (False, w)) \<and>
   (\<forall>e. removeStorage_try key type w = Inl e \<longrightarrow> removeStorage key type w = (False, w)) \<and>
   (\<forall>e. clearStorage_try type w = Inl e \<longrightarrow> clearStorage type w = (False, w)) \<and>
   (\<forall>e. stringify w v = Inl e \<longrightarrow> setStorage key v type w = (False, w)) \<and>
   (\<forall>c. stringify w v = Inr c \<and> \<not> fits w (type_area type) ((cells w (type_area type))(key \<mapsto> c)) \<longrightarrow>
      setStorage key v type w = (False, w)) \<and>
   (cells w (type_area type) key = Some Unparsable \<longrightarrow> getStorage key d type w = d) \<and>
   (cells w (type_area type) key = None \<longrightarrow> getStorage key d type w = d)"
  by (auto simp: getStorageInstance_eq getStorage_def getStorage_try_def setStorage_def
      setStorage_try_def removeStorage_def removeStorage_try_def clearStorage_def
      clearStorage_try_def try_catch_def setItem_def getItem_def JSON_parse_def Let_def
      split: option.splits sum.splits if_splits)

section \<open>Self-closing elements\<close>

lemma escape_char_no_lt: "CHR ''<'' \<notin> set (escape_char c)"
  by (simp add: escape_char_def)

lemma escape_char_no_gt: "CHR ''>'' \<notin> set (escape_char c)"
  by (simp add: escape_char_def)

lemma escapeHtml_no_lt: "CHR ''<'' \<notin> set (escapeHtml v)"
  by (induction v) (simp_all add: escapeHtml_def escape_char_no_lt)

lemma escapeHtml_no_gt: "CHR ''>'' \<notin> set (escapeHtml v)"
  by (induction v) (simp_all add: escapeHtml_def escape_char_no_gt)

lemma selfClosing_facts:
  "h \<in> set selfClosingTags \<Longrightarrow> h \<noteq> [] \<and> hd h \<noteq> CHR ''/'' \<and> CHR ''<'' \<notin> set h"
  by (auto simp: selfClosingTags_def)

lemma attrs_no_lt:
  "list_all (\<lambda>a. CHR ''<'' \<notin> set (fst a)) attrs \<Longrightarrow>
   CHR ''<'' \<notin> set (concat (map attr_html attrs))"
  by (induction attrs) (auto simp: attr_html_def escapeHtml_no_lt)

lemma not_sublist_close:
  assumes h: "h \<noteq> []" "hd h \<noteq> CHR ''/''" and r: "CHR ''<'' \<notin> set (h @ r)"
  shows "\<not> sublist (''</'' @ h @ ''>'') (''<'' @ h @ r)"
proof
  assume "sublist (''</'' @ h @ ''>'') (''<'' @ h @ r)"
  then obtain ps ss where eq: "''<'' @ h @ r = ps @ (''</'' @ h @ ''>'') @ ss"
    by (auto simp: sublist_def)
  show False
  proof (cases ps)
    case Nil
    with eq have "h @ r = CHR ''/'' # h @ ''>'' @ ss" by simp
    with h show False by (cases h) auto
  next
    case (Cons p ps')
    with eq have "h @ r = ps' @ CHR ''<'' # (''/'' @ h @ ''>'' @ ss)" by simp
    then have "CHR ''<'' \<in> set (h @ r)" by (metis in_set_conv_decomp)
    with r show False by simp
  qed
qed

text \<open>
  Claim C6. For every element: when its mapped tag name is one of the thirteen
  self-closing names and no child produced markup, the output is the open tag closed by
  \<^verbatim>\<open> />\<close>; it ends in \<^verbatim>\<open>/>\<close> and, the attribute names
  holding no \<open><\<close>, the close tag of the element occurs nowhere in it. For every
  other element the output is the open tag, the markup of the children and the close tag,
  also when there is no child.
\<close>

theorem nodeToHtml_self_closing:
  "(html_tag_name opts (toLowerCase tg) \<in> set selfClosingTags \<and>
    (\<forall>k\<in>set kids. nodeToHtml opts k = []) \<longrightarrow>
      nodeToHtml opts (Element tg attrs kids) = open_tag opts tg attrs @ '' />'' \<and>
      suffix ''/>'' (nodeToHtml opts (Element tg attrs kids)) \<and>
      (list_all (\<lambda>a. CHR ''<'' \<notin> set (fst a)) attrs \<longrightarrow>
         \<not> sublist (''</'' @ html_tag_name opts (toLowerCase tg) @ ''>'')
             (nodeToHtml opts (Element tg attrs kids)))) \<and>
   (\<not> (html_tag_name opts (toLowerCase tg) \<in> set selfClosingTags \<and>
       (\<forall>k\<in>set kids. nodeToHtml opts k = [])) \<longrightarrow>
      nodeToHtml opts (Element tg attrs kids) =
        open_tag opts tg attrs @ ''>'' @ concat (map (nodeToHtml opts) kids) @
        ''</'' @ html_tag_name opts (toLowerCase tg) @ ''>'' \<and>
      suffix (''</'' @ html_tag_name opts (toLowerCase tg) @ ''>'')
        (nodeToHtml opts (Element tg attrs kids)))"
proof (intro conjI impI)
  assume sc: "html_tag_name opts (toLowerCase tg) \<in> set selfClosingTags \<and>
    (\<forall>k\<in>set kids. nodeToHtml opts k = [])"
  then show eq: "nodeToHtml opts (Element tg attrs kids) = open_tag opts tg attrs @ '' />''"
    by (simp add: nodeToHtml_Element del: nodeToHtml.simps)
  show "suffix ''/>'' (nodeToHtml opts (Element tg attrs kids))"
    unfolding eq by (simp add: suffix_def)
  assume names: "list_all (\<lambda>a. CHR ''<'' \<notin> set (fst a)) attrs"
  let ?h = "html_tag_name opts (toLowerCase tg)"
  let ?r = "(if preserveAttributes opts then concat (map attr_html attrs) else []) @ '' />''"
  have f: "?h \<noteq> []" "hd ?h \<noteq> CHR ''/''" "CHR ''<'' \<notin> set ?h"
    using sc selfClosing_facts by blast+
  have "CHR ''<'' \<notin> set (?h @ ?r)"
    using f(3) attrs_no_lt [OF names] by simp
  from not_sublist_close [OF f(1) f(2) this]
  show "\<not> sublist (''</'' @ ?h @ ''>'') (nodeToHtml opts (Element tg attrs kids))"
    unfolding eq open_tag_def by simp
next
  assume "\<not> (html_tag_name opts (toLowerCase tg) \<in> set selfClosingTags \<and>
    (\<forall>k\<in>set kids. nodeToHtml opts k = []))"
  then show eq: "nodeToHtml opts (Element tg attrs kids) =
        open_tag opts tg attrs @ ''>'' @ concat (map (nodeToHtml opts) kids) @
        ''</'' @ html_tag_name opts (toLowerCase tg) @ ''>''"
    by (simp add: nodeToHtml_Element del: nodeToHtml.simps)
  show "suffix (''</'' @ html_tag_name opts (toLowerCase tg) @ ''>'')
        (nodeToHtml opts (Element tg attrs kids))"
    unfolding eq by (simp add: suffix_def)
qed

section \<open>The fragment variant\<close>

lemma plain_no_lt: "plain s \<Longrightarrow> CHR ''<'' \<notin> set s"
  by (auto simp: plain_def reserved_def list_all_iff)

lemma plain_no_gt: "plain s \<Longrightarrow> CHR ''>'' \<notin> set s"
  by (auto simp: plain_def reserved_def list_all_iff)

lemma attrs_no_gt:
  "list_all (\<lambda>a. plain (fst a)) attrs \<Longrightarrow> CHR ''>'' \<notin> set (concat (map attr_html attrs))"
  by (induction attrs) (auto simp: attr_html_def escapeHtml_no_gt plain_no_gt)

lemma open_tag_no_gt:
  assumes "plain_mapping opts" "plain t" "list_all (\<lambda>a. plain (fst a)) attrs"
  shows "CHR ''>'' \<notin> set (open_tag opts t attrs)"
proof -
  have "CHR ''>'' \<notin> set (html_tag_name opts (toLowerCase t))"
    using assms by (intro plain_no_gt html_tag_name_plain toLowerCase_plain)
  moreover have "CHR ''>'' \<notin> set (concat (map attr_html attrs))"
    using assms(3) by (rule attrs_no_gt)
  ultimately show ?thesis
    unfolding open_tag_def by (simp del: set_concat)
qed

lemma dropWhile_upto: "c \<notin> set a \<Longrightarrow> dropWhile (\<lambda>x. x \<noteq> c) (a @ c # r) = c # r"
  by (induction a) auto

lemma strip_open_at: "CHR ''>'' \<notin> set a \<Longrightarrow> strip_open (a @ CHR ''>'' # r) = r"
  by (simp add: strip_open_def dropWhile_upto)

lemma strip_close_at: "CHR ''<'' \<notin> set h \<Longrightarrow> strip_close (k @ ''</'' @ h @ ''>'') = k"
proof -
  assume h: "CHR ''<'' \<notin> set h"
  have "dropWhile (\<lambda>c. c \<noteq> CHR ''<'') ((CHR ''>'' # rev h @ ''/'') @ CHR ''<'' # rev k) = CHR ''<'' # rev k"
    using h by (intro dropWhile_upto) auto
  then show ?thesis by (simp add: strip_close_def)
qed

lemma strip_outer_Element:
  assumes "plain_mapping opts" "plain t" "list_all (\<lambda>a. plain (fst a)) attrs"
  shows "strip_outer_tags (nodeToHtml opts (Element t attrs kids)) =
         concat (map (nodeToHtml opts) kids)"
proof (cases "html_tag_name opts (toLowerCase t) \<in> set selfClosingTags \<and>
    (\<forall>k\<in>set kids. nodeToHtml opts k = [])")
  case True
  then have "nodeToHtml opts (Element t attrs kids) = (open_tag opts t attrs @ '' /'') @ CHR ''>'' # []"
    by (simp add: nodeToHtml_Element del: nodeToHtml.simps)
  moreover have "CHR ''>'' \<notin> set (open_tag opts t attrs @ '' /'')"
    using open_tag_no_gt [OF assms] by simp
  ultimately have "strip_open (nodeToHtml opts (Element t attrs kids)) = []"
    using strip_open_at by metis
  moreover have "concat (map (nodeToHtml opts) kids) = []" using True by simp
  ultimately show ?thesis by (simp add: strip_outer_tags_def strip_close_def)
next
  case False
  let ?h = "html_tag_name opts (toLowerCase t)"
  let ?k = "concat (map (nodeToHtml opts) kids)"
  from False have "nodeToHtml opts (Element t attrs kids) =
      open_tag opts t attrs @ CHR ''>'' # (?k @ ''</'' @ ?h @ ''>'')"
    by (simp add: nodeToHtml_Element del: nodeToHtml.simps)
  then have "strip_open (nodeToHtml opts (Element t attrs kids)) = ?k @ ''</'' @ ?h @ ''>''"
    using strip_open_at [OF open_tag_no_gt [OF assms]] by metis
  moreover have "CHR ''<'' \<notin> set ?h"
    using assms by (intro plain_no_lt html_tag_name_plain toLowerCase_plain)
  ultimately show ?thesis
    using strip_close_at by (simp add: strip_outer_tags_def)
qed

lemma plain_mapping_default: "plain_mapping (resolve no_options)"
  by (simp add: plain_mapping_def resolve_def no_options_def)

text \<open>
  Claim C7. For every document with a root element whose tag and attribute names hold no
  reserved character, under the default options: \<^verbatim>\<open>xml2htmlFragment\<close>
  returns the concatenated transduction of the children of the root element, and this is
  the output of \<^verbatim>\<open>xml2html\<close> with its outermost tag pair stripped.
\<close>

theorem xml2htmlFragment_inner:
  assumes "trim x \<noteq> []" and "parser x = Inr d"
    and "querySelector d ''parsererror'' = None"
    and "documentElement d = Some (Element t attrs kids)"
    and "plain t" and "list_all (\<lambda>a. plain (fst a)) attrs"
  shows "xml2htmlFragment parser x no_options =
           concat (map (nodeToHtml (resolve no_options)) kids) \<and>
         xml2htmlFragment parser x no_options = strip_outer_tags (xml2html parser x no_options)"
proof -
  have p: "parseXML parser x = Some d"
    using assms(1-3) by (simp add: parseXML_def)
  have f: "xml2htmlFragment parser x no_options =
           concat (map (nodeToHtml (resolve no_options)) kids)"
    using assms(1,4) p by (simp add: xml2htmlFragment_def doc_fold)
  have "xml2html parser x no_options = nodeToHtml (resolve no_options) (Element t attrs kids)"
    using assms(1,4) p by (simp add: xml2html_def no_options_def del: nodeToHtml.simps)
  then show ?thesis
    using f strip_outer_Element [OF plain_mapping_default assms(5,6)] by simp
qed

section \<open>The escaper and where it is applied\<close>





section \<open>Inputs that degrade to the empty string\<close>

lemma trim_ws: "list_all is_ws x \<Longrightarrow> trim x = []"
proof -
  assume "list_all is_ws x"
  then have "dropWhile is_ws x = []" by (induction x) auto
  then have "trim x = rev (dropWhile is_ws (rev []))" by (simp only: trim_def)
  then show ?thesis by simp
qed

text \<open>
  Claim C4. \<^verbatim>\<open>xml2html\<close> returns the empty string for the empty text,
  for every text of white space only, and for every text on which the parser raises or in
  whose document a \<^verbatim>\<open>parsererror\<close> element is found anywhere. The
  function is total: it never raises. For the text \<^verbatim>\<open><a><b></a>\<close> the
  result is empty for every parser that reports its mismatched tags, as a browser's does.
\<close>

theorem xml2html_degrades:
  "xml2html parser [] options = [] \<and>
   xml2html parser ''   '' options = [] \<and>
   (list_all is_ws x \<longrightarrow> xml2html parser x options = []) \<and>
   (parse_fails parser x \<longrightarrow> xml2html parser x options = []) \<and>
   (parse_fails parser ''<a><b></a>'' \<longrightarrow> xml2html parser ''<a><b></a>'' options = [])"
proof -
  have ws: "list_all is_ws y \<Longrightarrow> xml2html parser y options = []" for y
    by (simp add: xml2html_def trim_ws)
  have pf: "parse_fails parser y \<Longrightarrow> xml2html parser y options = []" for y
    by (auto simp: xml2html_def parseXML_def parse_fails_def split: sum.splits option.splits)
  have "list_all is_ws ''   ''" by (simp add: is_ws_def)
  with ws [of "[]"] ws [of "''   ''"] ws [of x] pf show ?thesis by simp
qed

section \<open>Escaped output\<close>




section \<open>Reordering the selection\<close>

lemma getAllTableIds_eq: "getAllTableIds w = session_get TABLE_IDS_KEY w"
  by (simp add: getAllTableIds_def try_catch_def session_get_def)

lemma getTableOrder_eq: "getTableOrder w = session_get TABLE_ORDER_KEY w"
  by (simp add: getTableOrder_def try_catch_def session_get_def)

lemma session_get_put:
  "session_works w \<Longrightarrow>
   session_get k' (session_put k v w) = (if k' = k then v else session_get k' w)"
  by (simp add: session_get_def getStorage_put session_works_def)

lemma keys_distinct [simp]:
  "TABLE_IDS_KEY \<noteq> TABLE_ORDER_KEY" "TABLE_ORDER_KEY \<noteq> TABLE_IDS_KEY"
  "SELECTED_TABLES_ITEMS_KEY \<noteq> TABLE_IDS_KEY" "TABLE_IDS_KEY \<noteq> SELECTED_TABLES_ITEMS_KEY"
  "SELECTED_TABLES_ITEMS_KEY \<noteq> TABLE_ORDER_KEY" "TABLE_ORDER_KEY \<noteq> SELECTED_TABLES_ITEMS_KEY"
  by (simp_all add: TABLE_IDS_KEY_def TABLE_ORDER_KEY_def SELECTED_TABLES_ITEMS_KEY_def)

lemma updateTableOrder_eq:
  "updateTableOrder (Array proposal) w =
     (True, snd (setStorage TABLE_ORDER_KEY (final_order proposal (getAllTableIds w))
                   StorageType_SESSION w))"
  by (simp add: updateTableOrder_def try_catch_def Let_def final_order_def)

lemma updateTableOrder_works:
  "session_works w \<Longrightarrow>
   updateTableOrder (Array proposal) w =
     (True, session_put TABLE_ORDER_KEY (final_order proposal (session_get TABLE_IDS_KEY w)) w)"
  by (simp add: updateTableOrder_eq setStorage_works getAllTableIds_eq)

lemma includes_Str [simp]: "array_includes (map Str ids) (Str i) = (i \<in> set ids)"
  by (induction ids) (auto simp: array_includes_def)



section \<open>The theorems at the sample inputs\<close>

lemma lower_samples:
  "toLowerCase ''Row'' = ''row''" "toLowerCase ''cell'' = ''cell''" "toLowerCase ''BR'' = ''br''"
  "toLowerCase ''td'' = ''td''"
  by code_simp+

lemma sample_trim: "trim sample_xml \<noteq> []"
  by (simp add: sample_xml_def trim_def is_ws_def)

lemma sample_cell: "nodeToHtml (resolve no_options) (Element ''cell'' [] [Text '' x & y '']) = ''<cell>x &amp; y</cell>''"
  by (simp add: no_options_def resolve_def html_tag_name_def selfClosingTags_def lower_samples
      trim_def is_ws_def escapeHtml_def escape_char_def)

lemma sample_br: "nodeToHtml (resolve no_options) (Element ''BR'' [] [Text '' '']) = ''<br />''"
  by (simp add: no_options_def resolve_def html_tag_name_def selfClosingTags_def lower_samples
      trim_def is_ws_def escapeHtml_def escape_char_def)


theorem xml2htmlFragment_inner_witness:
  "xml2htmlFragment (parser_of sample_doc) sample_xml no_options = ''<cell>x &amp; y</cell><br />'' \<and>
   strip_outer_tags (xml2html (parser_of sample_doc) sample_xml no_options) =
     ''<cell>x &amp; y</cell><br />''"
proof -
  have q: "querySelector sample_doc ''parsererror'' = None"
    by (simp add: sample_doc_def local_name_def)
  have d: "documentElement sample_doc = Some (Element ''Row'' [(''id'', ''a<b'')]
     [Element ''cell'' [] [Text '' x & y ''], Element ''BR'' [] [Text '' '']])"
    by (simp add: sample_doc_def)
  have n: "plain ''Row''" "list_all (\<lambda>a. plain (fst a)) [(''id'', ''a<b'')]"
    by (simp_all add: plain_def reserved_def)
  have p: "parser_of sample_doc sample_xml = Inr sample_doc"
    by (simp add: parser_of_def)
  have k: "concat (map (nodeToHtml (resolve no_options))
      [Element ''cell'' [] [Text '' x & y ''], Element ''BR'' [] [Text '' '']]) =
      ''<cell>x &amp; y</cell><br />''"
    by (simp add: sample_cell sample_br del: nodeToHtml.simps)
  from xml2htmlFragment_inner [where parser = "parser_of sample_doc", OF sample_trim p q d n] k show ?thesis
    by metis
qed

theorem nodeToHtml_self_closing_witness:
  "nodeToHtml (resolve no_options) (Element ''BR'' [(''id'', ''x'')] [Text '' '']) =
     ''<br id='' @ [dq] @ ''x'' @ [dq] @ '' />'' \<and>
   \<not> sublist ''</br>'' (nodeToHtml (resolve no_options) (Element ''BR'' [(''id'', ''x'')] [Text '' ''])) \<and>
   nodeToHtml (resolve no_options) (Element ''td'' [] []) = ''<td></td>''"
proof -
  let ?o = "resolve no_options"
  have h: "html_tag_name ?o (toLowerCase ''BR'') = ''br''" "html_tag_name ?o (toLowerCase ''td'') = ''td''"
    by (simp_all add: no_options_def resolve_def html_tag_name_def lower_samples)
  have a: "''br'' \<in> set selfClosingTags \<and> (\<forall>k\<in>set [Text '' '']. nodeToHtml ?o k = [])"
    by (simp add: selfClosingTags_def trim_def is_ws_def escapeHtml_def)
  have b: "list_all (\<lambda>a. CHR ''<'' \<notin> set (fst a)) [(''id'', ''x'')]"
    by simp
  have c: "\<not> (''td'' \<in> set selfClosingTags \<and> (\<forall>k\<in>set []. nodeToHtml ?o k = []))"
    by (simp add: selfClosingTags_def)
  have o: "open_tag ?o ''BR'' [(''id'', ''x'')] = ''<br id='' @ [dq] @ ''x'' @ [dq]"
    "open_tag ?o ''td'' [] = ''<td''"
    by (simp_all add: open_tag_def h attr_html_def escapeHtml_def escape_char_def)
       (simp_all add: no_options_def resolve_def)
  have hyp: "html_tag_name ?o (toLowerCase ''BR'') \<in> set selfClosingTags \<and>
      (\<forall>k\<in>set [Text '' '']. nodeToHtml ?o k = [])"
    unfolding h by (rule a)
  note r = nodeToHtml_self_closing [of ?o "''BR''" "[Text '' '']" "[(''id'', ''x'')]", THEN conjunct1, rule_format, OF hyp]
  from r have 1: "nodeToHtml ?o (Element ''BR'' [(''id'', ''x'')] [Text '' '']) =
     ''<br id='' @ [dq] @ ''x'' @ [dq] @ '' />''"
    by (simp only: o) simp
  from r b have "\<not> sublist (''</'' @ html_tag_name ?o (toLowerCase ''BR'') @ ''>'')
      (nodeToHtml ?o (Element ''BR'' [(''id'', ''x'')] [Text '' '']))"
    by blast
  then have 2: "\<not> sublist ''</br>'' (nodeToHtml ?o (Element ''BR'' [(''id'', ''x'')] [Text '' '']))"
    by (simp only: h) simp
  have hyp': "\<not> (html_tag_name ?o (toLowerCase ''td'') \<in> set selfClosingTags \<and>
      (\<forall>k\<in>set []. nodeToHtml ?o k = []))"
    unfolding h by (rule c)
  note r' = nodeToHtml_self_closing [of ?o "''td''" "[]" "[]", THEN conjunct2, rule_format, OF hyp']
  from r' have 3: "nodeToHtml ?o (Element ''td'' [] []) = ''<td></td>''"
    by (simp only: o h) simp
  from 1 2 3 show ?thesis by blast
qed


theorem xml2html_degrades_witness:
  "parse_fails (parser_of error_doc) ''<a><b></a>'' \<and>
   xml2html (parser_of error_doc) ''<a><b></a>'' no_options = [] \<and>
   list_all is_ws [CHR 0x20, CHR 0x0A, CHR 0x09] \<and>
   xml2html (parser_of sample_doc) [CHR 0x20, CHR 0x0A, CHR 0x09] no_options = [] \<and>
   xml2html (parser_of sample_doc) [] no_options = [] \<and>
   xml2html (parser_of sample_doc) ''   '' no_options = []"
proof -
  have f: "parse_fails (parser_of error_doc) ''<a><b></a>''"
    by (simp add: parse_fails_def parser_of_def error_doc_def local_name_def)
  have w: "list_all is_ws [CHR 0x20, CHR 0x0A, CHR 0x09]"
    by (simp add: is_ws_def)
  from xml2html_degrades [of "parser_of error_doc" no_options "''<a><b></a>''"] f
  have 1: "xml2html (parser_of error_doc) ''<a><b></a>'' no_options = []" by blast
  from xml2html_degrades [of "parser_of sample_doc" no_options "[CHR 0x20, CHR 0x0A, CHR 0x09]"] w
  have 2: "xml2html (parser_of sample_doc) [CHR 0x20, CHR 0x0A, CHR 0x09] no_options = []"
    "xml2html (parser_of sample_doc) [] no_options = []"
    "xml2html (parser_of sample_doc) ''   '' no_options = []"
    by blast+
  from f w 1 2 show ?thesis by blast
qed


lemma fresh_works: "session_works fresh_window"
  by (simp add: session_works_def fresh_window_def)


theorem storage_failure_policy_witness:
  "getStorageInstance StorageType_SESSION blocked_window = None \<and>
   getStorage ''k'' [Str ''d''] StorageType_SESSION blocked_window = [Str ''d''] \<and>
   setStorage ''k'' [Str ''v''] StorageType_SESSION blocked_window = (False, blocked_window) \<and>
   removeStorage ''k'' StorageType_SESSION blocked_window = (False, blocked_window) \<and>
   clearStorage StorageType_SESSION blocked_window = (False, blocked_window) \<and>
   setStorage ''k'' [Str ''v''] StorageType_SESSION full_window = (False, full_window) \<and>
   setStorage ''k'' [Str ''v''] StorageType_LOCAL cyclic_window = (False, cyclic_window) \<and>
   getStorage ''k'' [Str ''d''] StorageType_SESSION corrupt_window = [Str ''d'']"
proof -
  have b: "getStorageInstance StorageType_SESSION blocked_window = None"
    by (simp add: getStorageInstance_eq blocked_window_def fresh_window_def)
  from storage_failure_policy [of StorageType_SESSION blocked_window "''k''" "[Str ''d'']" "[Str ''v'']"] b
  have 1: "getStorage ''k'' [Str ''d''] StorageType_SESSION blocked_window = [Str ''d''] \<and>
    setStorage ''k'' [Str ''v''] StorageType_SESSION blocked_window = (False, blocked_window) \<and>
    removeStorage ''k'' StorageType_SESSION blocked_window = (False, blocked_window) \<and>
    clearStorage StorageType_SESSION blocked_window = (False, blocked_window)"
    by blast
  have f: "stringify full_window [Str ''v''] = Inr (Parsed [Str ''v'']) \<and>
     \<not> fits full_window (type_area StorageType_SESSION)
         ((cells full_window (type_area StorageType_SESSION))(''k'' \<mapsto> Parsed [Str ''v'']))"
    by (simp add: full_window_def fresh_window_def)
  from storage_failure_policy [of StorageType_SESSION full_window "''k''" "[Str ''d'']" "[Str ''v'']"] f
  have 2: "setStorage ''k'' [Str ''v''] StorageType_SESSION full_window = (False, full_window)"
    by blast
  have c: "stringify cyclic_window [Str ''v''] = Inl TypeError"
    by (simp add: cyclic_window_def fresh_window_def)
  from storage_failure_policy [of StorageType_LOCAL cyclic_window "''k''" "[Str ''d'']" "[Str ''v'']"] c
  have 3: "setStorage ''k'' [Str ''v''] StorageType_LOCAL cyclic_window = (False, cyclic_window)"
    by blast
  have u: "cells corrupt_window (type_area StorageType_SESSION) ''k'' = Some Unparsable"
    by (simp add: corrupt_window_def fresh_window_def)
  from storage_failure_policy [of StorageType_SESSION corrupt_window "''k''" "[Str ''d'']" "[Str ''v'']"] u
  have 4: "getStorage ''k'' [Str ''d''] StorageType_SESSION corrupt_window = [Str ''d'']"
    by blast
  from b 1 2 3 4 show ?thesis by blast
qed

section \<open>Adding to the selection\<close>

text \<open>
  Two functions add a table id. \<^verbatim>\<open>addTableId\<close> of the storage helpers
  refuses an id that the id list already includes; \<^verbatim>\<open>addToSelected\<close> of
  the view, which looks the id up in the current results, is the operation the properties
  below are about.
\<close>

lemma addTableId_refuses_duplicate:
  "array_includes (getAllTableIds w) (Str tableId) \<Longrightarrow> addTableId tableId w = (False, w)"
  by (simp add: addTableId_def try_catch_def Let_def)

lemma find_tbl_id: "find (\<lambda>t. tbl_id t = tableId) ts = Some tbl \<Longrightarrow> tbl_id tbl = tableId"
  by (induction ts) (auto split: if_splits)

lemma addToSelected_fail:
  "tableId = [] \<or> find (\<lambda>t. tbl_id t = tableId) (tableList v) = None \<Longrightarrow>
   addToSelected tableId stamp (v, w) =
     (JUndefined,
      v\<lparr>messages := messages v @ (if tableId = [] then [] else [Warning_no_such_table])\<rparr>, w)"
  by (auto simp: addToSelected_def)

lemma addToSelected_found:
  assumes "tableId \<noteq> []" "find (\<lambda>t. tbl_id t = tableId) (tableList v) = Some tbl"
  shows "fst (addToSelected tableId stamp (v, w)) = JUndefined"
    and "fst (snd (addToSelected tableId stamp (v, w))) =
      v\<lparr>selectedTables := selectedTables v @ [tableItem_of tableId stamp tbl],
        messages := messages v @ [Success_added]\<rparr>"
  using assms by (simp_all add: addToSelected_def Let_def)

lemma addToSelected_window:
  assumes "tableId \<noteq> []" "find (\<lambda>t. tbl_id t = tableId) (tableList v) = Some tbl"
    and "session_works w"
  shows "snd (snd (addToSelected tableId stamp (v, w))) =
     session_put TABLE_ORDER_KEY
       (final_order (session_get TABLE_ORDER_KEY w @ [Str tableId])
          (session_get TABLE_IDS_KEY w @ [Str tableId]))
       (session_put TABLE_IDS_KEY (session_get TABLE_IDS_KEY w @ [Str tableId])
          (session_put SELECTED_TABLES_ITEMS_KEY
             (session_get SELECTED_TABLES_ITEMS_KEY w @ [Itm (tableItem_of tableId stamp tbl)]) w))"
  using assms
  by (simp add: addToSelected_def Let_def setStorage_works updateTableOrder_works
      getAllTableIds_eq getTableOrder_eq session_get_put session_get_def [symmetric])







lemma length_splice1: "j < length xs \<Longrightarrow> length (splice1 j xs) = length xs - 1"
  by (simp add: splice1_def)













text \<open>
  Claim C3, as amended. \<^verbatim>\<open>addToSelected\<close> changes neither the selection
  nor the storage exactly when the id is empty or is not found in the current result
  list (a warning is recorded when a non-empty id is not found); for a non-empty id found
  there it appends an entry with this id to the displayed selection, records the success
  message and, when the session storage works, appends the entry to the stored items and
  the id to the stored id list. On every path it returns \<^verbatim>\<open>undefined\<close>.
\<close>

theorem addToSelected_lookup:
  "(tableId = [] \<or> find (\<lambda>t. tbl_id t = tableId) (tableList v) = None \<longrightarrow>
      addToSelected tableId stamp (v, w) =
        (JUndefined,
         v\<lparr>messages := messages v @ (if tableId = [] then [] else [Warning_no_such_table])\<rparr>,
         w)) \<and>
   (\<forall>tbl. tableId \<noteq> [] \<and> find (\<lambda>t. tbl_id t = tableId) (tableList v) = Some tbl \<longrightarrow>
      fst (addToSelected tableId stamp (v, w)) = JUndefined \<and>
      fst (snd (addToSelected tableId stamp (v, w))) =
        v\<lparr>selectedTables := selectedTables v @ [tableItem_of tableId stamp tbl],
          messages := messages v @ [Success_added]\<rparr> \<and>
      item_id (tableItem_of tableId stamp tbl) = tableId \<and>
      (session_works w \<longrightarrow>
         session_get SELECTED_TABLES_ITEMS_KEY (snd (snd (addToSelected tableId stamp (v, w)))) =
           session_get SELECTED_TABLES_ITEMS_KEY w @ [Itm (tableItem_of tableId stamp tbl)] \<and>
         getAllTableIds (snd (snd (addToSelected tableId stamp (v, w)))) =
           getAllTableIds w @ [Str tableId]))"
proof (intro conjI allI impI)
  assume "tableId = [] \<or> find (\<lambda>t. tbl_id t = tableId) (tableList v) = None"
  then show "addToSelected tableId stamp (v, w) =
        (JUndefined,
         v\<lparr>messages := messages v @ (if tableId = [] then [] else [Warning_no_such_table])\<rparr>,
         w)"
    by (rule addToSelected_fail)
next
  fix tbl
  assume a: "tableId \<noteq> [] \<and> find (\<lambda>t. tbl_id t = tableId) (tableList v) = Some tbl"
  then have ne: "tableId \<noteq> []" and f: "find (\<lambda>t. tbl_id t = tableId) (tableList v) = Some tbl"
    by simp_all
  show "fst (addToSelected tableId stamp (v, w)) = JUndefined"
    by (rule addToSelected_found(1) [OF ne f])
  show "fst (snd (addToSelected tableId stamp (v, w))) =
        v\<lparr>selectedTables := selectedTables v @ [tableItem_of tableId stamp tbl],
          messages := messages v @ [Success_added]\<rparr>"
    by (rule addToSelected_found(2) [OF ne f])
  show "item_id (tableItem_of tableId stamp tbl) = tableId"
    using find_tbl_id [OF f] by (simp add: tableItem_of_def)
  assume w: "session_works w"
  note win = addToSelected_window [OF ne f w, of stamp]
  show "session_get SELECTED_TABLES_ITEMS_KEY (snd (snd (addToSelected tableId stamp (v, w)))) =
           session_get SELECTED_TABLES_ITEMS_KEY w @ [Itm (tableItem_of tableId stamp tbl)]"
    using w by (simp add: win session_get_put)
  show "getAllTableIds (snd (snd (addToSelected tableId stamp (v, w)))) =
           getAllTableIds w @ [Str tableId]"
    using w by (simp add: win getAllTableIds_eq session_get_put)
qed

text \<open>
  As first stated the property fails: for an id present in the results the method does
  not return true, for an absent id it does not return false, and an empty id is refused
  although a result carries it.
\<close>

theorem addToSelected_no_flag:
  "find (\<lambda>t. tbl_id t = ''t1'') (tableList results_view) = Some t1_table \<and>
   fst (addToSelected ''t1'' ''1_a'' (results_view, fresh_window)) \<noteq> JBool True \<and>
   find (\<lambda>t. tbl_id t = ''t9'') (tableList results_view) = None \<and>
   fst (addToSelected ''t9'' ''1_a'' (results_view, fresh_window)) \<noteq> JBool False \<and>
   find (\<lambda>t. tbl_id t = []) (tableList (results_view\<lparr>tableList := [blank_table]\<rparr>)) =
     Some blank_table \<and>
   selectedTables (fst (snd (addToSelected [] ''1_a''
       (results_view\<lparr>tableList := [blank_table]\<rparr>, fresh_window)))) = []"
  by (simp add: addToSelected_def Let_def results_view_def t1_table_def t2_table_def blank_table_def)

theorem addToSelected_lookup_witness:
  "find (\<lambda>t. tbl_id t = ''t9'') (tableList results_view) = None \<and>
   addToSelected ''t9'' ''1_a'' (results_view, fresh_window) =
     (JUndefined, results_view\<lparr>messages := [Warning_no_such_table]\<rparr>, fresh_window) \<and>
   find (\<lambda>t. tbl_id t = ''t1'') (tableList results_view) = Some t1_table \<and>
   session_works fresh_window \<and>
   selectedTables (fst (snd (addToSelected ''t1'' ''1_a'' (results_view, fresh_window)))) =
     [tableItem_of ''t1'' ''1_a'' t1_table] \<and>
   getAllTableIds (snd (snd (addToSelected ''t1'' ''1_a'' (results_view, fresh_window)))) =
     [Str ''t1'']"
proof -
  have n: "find (\<lambda>t. tbl_id t = ''t9'') (tableList results_view) = None"
    by (simp add: results_view_def t1_table_def t2_table_def)
  have f: "find (\<lambda>t. tbl_id t = ''t1'') (tableList results_view) = Some t1_table"
    by (simp add: results_view_def t1_table_def)
  have e: "getAllTableIds fresh_window = []"
    by (simp add: getAllTableIds_def getStorage_def getStorage_try_def try_catch_def
        getStorageInstance_eq getItem_def fresh_window_def)
  from addToSelected_lookup [of "''t9''" results_view "''1_a''" fresh_window] n
  have 1: "addToSelected ''t9'' ''1_a'' (results_view, fresh_window) =
     (JUndefined, results_view\<lparr>messages := [Warning_no_such_table]\<rparr>, fresh_window)"
    by (simp add: results_view_def)
  from addToSelected_lookup [of "''t1''" results_view "''1_a''" fresh_window] f fresh_works
  have "fst (snd (addToSelected ''t1'' ''1_a'' (results_view, fresh_window))) =
        results_view\<lparr>selectedTables := selectedTables results_view @ [tableItem_of ''t1'' ''1_a'' t1_table],
          messages := messages results_view @ [Success_added]\<rparr>"
    and 3: "getAllTableIds (snd (snd (addToSelected ''t1'' ''1_a'' (results_view, fresh_window)))) =
     getAllTableIds fresh_window @ [Str ''t1'']"
    by simp_all
  then have 2: "selectedTables (fst (snd (addToSelected ''t1'' ''1_a'' (results_view, fresh_window)))) =
     [tableItem_of ''t1'' ''1_a'' t1_table]"
    by (simp add: results_view_def)
  from n 1 f fresh_works 2 3 e show ?thesis by simp
qed

end
